theory Spec2Isabelle
  imports Main
begin

section \<open>Python values: errors, list indexing, grids\<close>

text \<open>
  The exceptions the modelled code can raise. An uncaught exception leaves \<open>run\<close>
  (nothing in honk.py catches one), so every function that can raise returns
  \<open>error + 'a\<close> with \<open>Inl\<close> for the exception.
\<close>

datatype error = ValueError | IndexError | KeyError | TypeError

text \<open>
  Python's \<open>xs[i]\<close>: an index in \<open>0 .. len-1\<close> is taken as it is, an index in
  \<open>-len .. -1\<close> counts from the end, anything else raises IndexError.
\<close>

definition py_index :: "nat \<Rightarrow> int \<Rightarrow> error + nat" where
  "py_index n i =
     (if 0 \<le> i \<and> i < int n then Inr (nat i)
      else if i < 0 \<and> - int n \<le> i then Inr (nat (int n + i))
      else Inl IndexError)"

definition getitem :: "'a list \<Rightarrow> int \<Rightarrow> error + 'a" where
  "getitem xs i =
     (case py_index (length xs) i of Inl e \<Rightarrow> Inl e | Inr k \<Rightarrow> Inr (xs ! k))"

definition setitem :: "'a list \<Rightarrow> int \<Rightarrow> 'a \<Rightarrow> error + 'a list" where
  "setitem xs i v =
     (case py_index (length xs) i of Inl e \<Rightarrow> Inl e | Inr k \<Rightarrow> Inr (xs[k := v]))"

text \<open>
  A layer's \<open>data\<close> is a list of rows of global tile ids. \<open>data[y][x]\<close> reads row
  \<open>y\<close> first, then column \<open>x\<close>; \<open>data[y][x] = v\<close> reads row \<open>y\<close> and stores
  into it in place.
\<close>

type_synonym grid = "int list list"

definition get_cell :: "grid \<Rightarrow> int \<Rightarrow> int \<Rightarrow> error + int" where
  "get_cell d y x =
     (case getitem d y of Inl e \<Rightarrow> Inl e | Inr row \<Rightarrow> getitem row x)"

definition set_cell :: "grid \<Rightarrow> int \<Rightarrow> int \<Rightarrow> int \<Rightarrow> error + grid" where
  "set_cell d y x v =
     (case py_index (length d) y of
        Inl e \<Rightarrow> Inl e
      | Inr r \<Rightarrow>
          (case setitem (d ! r) x v of
             Inl e \<Rightarrow> Inl e
           | Inr row \<Rightarrow> Inr (d[r := row])))"

section \<open>The loaded map\<close>

text \<open>
  The map object of the tile-map loader, as far as honk.py uses it: the dictionary
  from layer names to the layers' data, and the dictionary \<open>tile_properties\<close> from
  global tile ids to property dictionaries, kept as the list of its items in
  iteration order (the index builders iterate over \<open>.items()\<close>). Property names
  and values are strings.
\<close>

type_synonym props = "string \<rightharpoonup> string"

record TiledMap =
  layernames :: "string \<rightharpoonup> grid"
  tile_properties :: "(int \<times> props) list"

text \<open>
  The loader's two lookups: \<open>get_layer_by_name\<close> raises ValueError for an unknown
  name; \<open>get_tile_properties_by_gid\<close> returns None for a gid with no properties.
\<close>

definition get_layer_by_name :: "TiledMap \<Rightarrow> string \<Rightarrow> error + grid" where
  "get_layer_by_name tm name =
     (case layernames tm name of None \<Rightarrow> Inl ValueError | Some l \<Rightarrow> Inr l)"

definition get_tile_properties_by_gid :: "TiledMap \<Rightarrow> int \<Rightarrow> props option" where
  "get_tile_properties_by_gid tm gid = map_of (tile_properties tm) gid"

section \<open>TiledRenderer: the index builders\<close>

text \<open>
  \<open>build_spawn_index\<close>: one pass over the items; an item without the key
  \<open>spawn\<close> is skipped, any other stores its gid under its spawn value.
\<close>

definition spawn_step :: "(string \<rightharpoonup> int) \<Rightarrow> int \<times> props \<Rightarrow> (string \<rightharpoonup> int)" where
  "spawn_step spawns item =
     (case item of (gid, props) \<Rightarrow>
        (case props ''spawn'' of
           None \<Rightarrow> spawns
         | Some colour \<Rightarrow> spawns(colour \<mapsto> gid)))"

definition build_spawn_index :: "TiledMap \<Rightarrow> (string \<rightharpoonup> int)" where
  "build_spawn_index tm = foldl spawn_step Map.empty (tile_properties tm)"

text \<open>
  \<open>build_character_index\<close>: an item lacking one of \<open>team\<close>, \<open>character\<close>,
  \<open>mode\<close> is skipped. Otherwise the team's dictionary is created when the team is
  new; the character's dictionary is created (or replaced by a fresh one) when the
  \<^emph>\<open>team\<close> is not a key of the team's dictionary, which is the test the source
  writes; then the gid is stored under the mode. \<open>characters[team][name]\<close> raises
  KeyError when that dictionary has no entry for the name.
\<close>

type_synonym char_index = "string \<rightharpoonup> (string \<rightharpoonup> (string \<rightharpoonup> int))"

definition character_step :: "char_index \<Rightarrow> int \<times> props \<Rightarrow> error + char_index" where
  "character_step characters item =
     (case item of (gid, props) \<Rightarrow>
        (case (props ''team'', props ''character'', props ''mode'') of
           (Some team, Some name, Some mode) \<Rightarrow>
             (let of_team = (case characters team of None \<Rightarrow> Map.empty | Some d \<Rightarrow> d);
                  of_team' = (if of_team team = None then of_team(name \<mapsto> Map.empty)
                              else of_team)
              in (case of_team' name of
                    None \<Rightarrow> Inl KeyError
                  | Some modes \<Rightarrow>
                      Inr (characters(team \<mapsto> of_team'(name \<mapsto> modes(mode \<mapsto> gid))))))
         | _ \<Rightarrow> Inr characters))"

fun character_loop :: "char_index \<Rightarrow> (int \<times> props) list \<Rightarrow> error + char_index" where
  "character_loop characters [] = Inr characters"
| "character_loop characters (item # items) =
     (case character_step characters item of
        Inl e \<Rightarrow> Inl e
      | Inr characters' \<Rightarrow> character_loop characters' items)"

definition build_character_index :: "TiledMap \<Rightarrow> error + char_index" where
  "build_character_index tm = character_loop Map.empty (tile_properties tm)"

definition lookup3 :: "char_index \<Rightarrow> string \<Rightarrow> string \<Rightarrow> string \<Rightarrow> int option" where
  "lookup3 characters team name mode =
     (case characters team of
        None \<Rightarrow> None
      | Some d \<Rightarrow> (case d name of None \<Rightarrow> None | Some modes \<Rightarrow> modes mode))"

section \<open>SimpleTest: the application and its event loop\<close>

text \<open>
  The application object: the renderer's map, the selection (Python's None, or a
  tuple, kept as the list of its components), the loop flag, the exit status, and
  the lines printed so far.
\<close>

record SimpleTest =
  tmx_data :: TiledMap
  selection :: "int list option"
  running :: bool
  exit_status :: int
  printed :: "string list"

text \<open>
  The state \<open>__init__\<close> leaves, where \<open>tm\<close> is the map as it is after loading
  and the per-map spawn setup (which only writes layer cells, after the selection
  has been set to None).
\<close>

definition SimpleTest_init :: "TiledMap \<Rightarrow> SimpleTest" where
  "SimpleTest_init tm =
     \<lparr>tmx_data = tm, selection = None, running = False, exit_status = 0, printed = []\<rparr>"

text \<open>
  The events of the windowing library that \<open>run\<close> tells apart. A mouse-button
  release carries the tile column \<open>x\<close> and row \<open>y\<close> that the handler computes
  from the pointer position, \<open>int(pos[0] / (tilewidth * conf.scale))\<close> and the same
  for the row: the pointer position is an input of the environment, and the
  division is outside the model. Every other event type is \<open>OTHER\<close>.
\<close>

datatype event = QUIT | KEYDOWN int | VIDEORESIZE int int | MOUSEBUTTONUP int int | OTHER

definition K_ESCAPE :: int where
  "K_ESCAPE = 27"

text \<open>Python's truth value of the selection: None and the empty tuple are false.\<close>

definition truthy :: "int list option \<Rightarrow> bool" where
  "truthy sel = (case sel of None \<Rightarrow> False | Some t \<Rightarrow> t \<noteq> [])"

text \<open>\<open>self.selection[i]\<close>: subscripting None raises TypeError.\<close>

definition selection_item :: "int list option \<Rightarrow> int \<Rightarrow> error + int" where
  "selection_item sel i = (case sel of None \<Rightarrow> Inl TypeError | Some t \<Rightarrow> getitem t i)"

definition print_line :: "SimpleTest \<Rightarrow> string \<Rightarrow> SimpleTest" where
  "print_line s line = s\<lparr>printed := printed s @ [line]\<rparr>"

definition store_sprite_layer :: "SimpleTest \<Rightarrow> grid \<Rightarrow> SimpleTest" where
  "store_sprite_layer s d =
     s\<lparr>tmx_data := (tmx_data s)\<lparr>layernames := (layernames (tmx_data s))(''Sprite Layer'' \<mapsto> d)\<rparr>\<rparr>"

text \<open>
  The last branch of the click handler, the move: \<open>layer.data[y][x] =
  self.selection[2]\<close>, then \<open>layer.data[self.selection[1]][self.selection[0]] = 0\<close>
  on the data as the first store left it, then \<open>self.selection = None\<close>. The
  right-hand side is evaluated before the target, and the row before the column.
\<close>

definition move_selection :: "SimpleTest \<Rightarrow> grid \<Rightarrow> int \<Rightarrow> int \<Rightarrow> error + SimpleTest" where
  "move_selection s layer x y =
     (case selection_item (selection s) 2 of
        Inl e \<Rightarrow> Inl e
      | Inr gid \<Rightarrow>
     (case set_cell layer y x gid of
        Inl e \<Rightarrow> Inl e
      | Inr layer1 \<Rightarrow>
     (case selection_item (selection s) 1 of
        Inl e \<Rightarrow> Inl e
      | Inr sy \<Rightarrow>
     (case getitem layer1 sy of
        Inl e \<Rightarrow> Inl e
      | Inr _ \<Rightarrow>
     (case selection_item (selection s) 0 of
        Inl e \<Rightarrow> Inl e
      | Inr sx \<Rightarrow>
     (case set_cell layer1 sy sx 0 of
        Inl e \<Rightarrow> Inl e
      | Inr layer2 \<Rightarrow> Inr ((store_sprite_layer s layer2)\<lparr>selection := None\<rparr>)))))))"

text \<open>
  The MOUSEBUTTONUP branch of \<open>run\<close>, in the order the source evaluates: both
  layers, the clicked World Layer tile, its properties and their \<open>terrain\<close> entry
  are read first (subscripting the None of a tile without properties raises
  TypeError, a missing key KeyError); then the branch on the selection.
\<close>

definition mouse_button_up :: "SimpleTest \<Rightarrow> int \<Rightarrow> int \<Rightarrow> error + SimpleTest" where
  "mouse_button_up s x y =
     (case get_layer_by_name (tmx_data s) ''Sprite Layer'' of
        Inl e \<Rightarrow> Inl e
      | Inr layer \<Rightarrow>
     (case get_layer_by_name (tmx_data s) ''World Layer'' of
        Inl e \<Rightarrow> Inl e
      | Inr world \<Rightarrow>
     (case get_cell world y x of
        Inl e \<Rightarrow> Inl e
      | Inr tile \<Rightarrow>
     (case get_tile_properties_by_gid (tmx_data s) tile of
        None \<Rightarrow> Inl TypeError
      | Some props \<Rightarrow>
     (case props ''terrain'' of
        None \<Rightarrow> Inl KeyError
      | Some terrain \<Rightarrow>
     (if truthy (selection s) then
        (case get_cell layer y x of
           Inl e \<Rightarrow> Inl e
         | Inr cell \<Rightarrow>
             if cell \<noteq> 0 then Inr (print_line s ''Something already here.'')
             else if terrain = ''water'' then Inr (print_line s ''oh no is water'')
             else if terrain = ''mountains'' then Inr (print_line s ''oh no is mountain'')
             else move_selection s layer x y)
      else
        (case get_cell layer y x of
           Inl e \<Rightarrow> Inl e
         | Inr cell \<Rightarrow>
             if cell \<noteq> 0 then Inr (s\<lparr>selection := Some [x, y, cell]\<rparr>)
             else Inr s)))))))"

fun handle_event :: "SimpleTest \<Rightarrow> event \<Rightarrow> error + SimpleTest" where
  "handle_event s QUIT = Inr (s\<lparr>exit_status := 0, running := False\<rparr>)"
| "handle_event s (KEYDOWN key) =
     (if key = K_ESCAPE then Inr (s\<lparr>exit_status := 0, running := False\<rparr>) else Inr s)"
| "handle_event s (VIDEORESIZE w h) = Inr s"
| "handle_event s (MOUSEBUTTONUP x y) = mouse_button_up s x y"
| "handle_event s OTHER = Inr s"

text \<open>The \<open>for event in pygame.event.get()\<close> loop over one batch of events.\<close>

fun process_events :: "SimpleTest \<Rightarrow> event list \<Rightarrow> error + SimpleTest" where
  "process_events s [] = Inr s"
| "process_events s (e # es) =
     (case handle_event s e of Inl err \<Rightarrow> Inl err | Inr s' \<Rightarrow> process_events s' es)"

text \<open>
  The \<open>while self.running\<close> loop. The event queue is the sequence of batches that
  \<open>pygame.event.get()\<close> returns, one per iteration; the loop may never end, in
  which case the result is None. Drawing reads the map and changes nothing of the
  state.
\<close>

partial_function (option) main_loop ::
  "(nat \<Rightarrow> event list) \<Rightarrow> nat \<Rightarrow> SimpleTest \<Rightarrow> (error + SimpleTest) option" where
  "main_loop queue n s =
     (if running s then
        (case process_events s (queue n) of
           Inl e \<Rightarrow> Some (Inl e)
         | Inr s' \<Rightarrow> main_loop queue (Suc n) s')
      else Some (Inr s))"

definition run_begin :: "SimpleTest \<Rightarrow> SimpleTest" where
  "run_begin s = s\<lparr>running := True, exit_status := 1\<rparr>"

definition run :: "(nat \<Rightarrow> event list) \<Rightarrow> SimpleTest \<Rightarrow> (error + int) option" where
  "run queue s =
     (case main_loop queue 0 (run_begin s) of
        None \<Rightarrow> None
      | Some (Inl e) \<Rightarrow> Some (Inl e)
      | Some (Inr s') \<Rightarrow> Some (Inr (exit_status s')))"

section \<open>Observations of a state\<close>

text \<open>
  What a click at tile \<open>(x, y)\<close> reads: the Sprite Layer cell \<open>data[y][x]\<close>, and
  the \<open>terrain\<close> property of the World Layer tile there. Both fail as the
  handler's own lookups fail.
\<close>

definition sprite_cell :: "SimpleTest \<Rightarrow> int \<Rightarrow> int \<Rightarrow> error + int" where
  "sprite_cell s x y =
     (case get_layer_by_name (tmx_data s) ''Sprite Layer'' of
        Inl e \<Rightarrow> Inl e
      | Inr layer \<Rightarrow> get_cell layer y x)"

definition terrain_at :: "SimpleTest \<Rightarrow> int \<Rightarrow> int \<Rightarrow> error + string" where
  "terrain_at s x y =
     (case get_layer_by_name (tmx_data s) ''World Layer'' of
        Inl e \<Rightarrow> Inl e
      | Inr world \<Rightarrow>
     (case get_cell world y x of
        Inl e \<Rightarrow> Inl e
      | Inr tile \<Rightarrow>
     (case get_tile_properties_by_gid (tmx_data s) tile of
        None \<Rightarrow> Inl TypeError
      | Some props \<Rightarrow>
     (case props ''terrain'' of
        None \<Rightarrow> Inl KeyError
      | Some terrain \<Rightarrow> Inr terrain))))"

text \<open>
  The row and column of the list cell that \<open>data[y][x]\<close> denotes, once negative
  indices are resolved, and the store into that cell.
\<close>

definition cell_pos :: "grid \<Rightarrow> int \<Rightarrow> int \<Rightarrow> error + nat \<times> nat" where
  "cell_pos d y x =
     (case py_index (length d) y of
        Inl e \<Rightarrow> Inl e
      | Inr r \<Rightarrow>
          (case py_index (length (d ! r)) x of
             Inl e \<Rightarrow> Inl e
           | Inr c \<Rightarrow> Inr (r, c)))"

definition put_cell :: "grid \<Rightarrow> nat \<Rightarrow> nat \<Rightarrow> int \<Rightarrow> grid" where
  "put_cell d r c v = d[r := (d ! r)[c := v]]"

text \<open>What the claims call the selection invariants.\<close>

definition selection_ok :: "int list option \<Rightarrow> bool" where
  "selection_ok sel = (case sel of None \<Rightarrow> True | Some t \<Rightarrow> length t = 3)"

definition selection_inv :: "SimpleTest \<Rightarrow> bool" where
  "selection_inv s =
     (case selection s of
        None \<Rightarrow> True
      | Some t \<Rightarrow>
          length t = 3 \<and> t ! 2 \<noteq> 0 \<and> sprite_cell s (t ! 0) (t ! 1) = Inr (t ! 2))"

text \<open>
  The tile-id component of a selection, when there is one, is not 0
  (\<open>selection[2]\<close> never evaluates to 0).
\<close>

definition selection_nonzero :: "int list option \<Rightarrow> bool" where
  "selection_nonzero sel = (case sel of None \<Rightarrow> True | Some t \<Rightarrow> getitem t 2 \<noteq> Inr 0)"

definition is_quit :: "event \<Rightarrow> bool" where
  "is_quit e = (e = QUIT \<or> e = KEYDOWN K_ESCAPE)"

section \<open>Example data\<close>

text \<open>Three tiles, two of them spawn points.\<close>

definition spawn_map :: TiledMap where
  "spawn_map =
     \<lparr>layernames = Map.empty,
      tile_properties =
        [(3, [''spawn'' \<mapsto> ''red'']), (4, [''terrain'' \<mapsto> ''grass'']),
         (7, [''spawn'' \<mapsto> ''blue''])]\<rparr>"

text \<open>One character of one team with two modes.\<close>

definition modes_map :: TiledMap where
  "modes_map =
     \<lparr>layernames = Map.empty,
      tile_properties =
        [(1, [''team'' \<mapsto> ''red'', ''character'' \<mapsto> ''dude'', ''mode'' \<mapsto> ''idle'']),
         (2, [''team'' \<mapsto> ''red'', ''character'' \<mapsto> ''dude'', ''mode'' \<mapsto> ''walk''])]\<rparr>"

text \<open>
  A map of two rows and four columns. Row 0 has sprites 5, 7 and 9 in columns 0, 2
  and 3; world tile 4 (row 0, column 3) has no properties, tile 6 (row 1, column 2)
  has properties without \<open>terrain\<close>.
\<close>

definition demo_map :: TiledMap where
  "demo_map =
     \<lparr>layernames =
        [''Sprite Layer'' \<mapsto> [[5, 0, 7, 9], [0, 0, 0, 0]],
         ''World Layer'' \<mapsto> [[1, 1, 1, 4], [3, 2, 6, 1]]],
      tile_properties =
        [(1, [''terrain'' \<mapsto> ''grass'']), (2, [''terrain'' \<mapsto> ''water'']),
         (3, [''terrain'' \<mapsto> ''mountains'']), (6, [''spawn'' \<mapsto> ''red''])]\<rparr>"

definition demo_start :: SimpleTest where
  "demo_start = run_begin (SimpleTest_init demo_map)"

definition demo_selected :: SimpleTest where
  "demo_selected = demo_start\<lparr>selection := Some [0, 0, 5]\<rparr>"

text \<open>
  Two event queues: one whose every batch is a window close followed by a click at
  tile (9, 9), outside the map; one that selects the sprite at (0, 0) in its first
  batch and has an ESC key press in every later batch.
\<close>

definition quit_then_click :: "nat \<Rightarrow> event list" where
  "quit_then_click n = [QUIT, MOUSEBUTTONUP 9 9]"

definition select_then_escape :: "nat \<Rightarrow> event list" where
  "select_then_escape n = (if n = 0 then [MOUSEBUTTONUP 0 0] else [OTHER, KEYDOWN K_ESCAPE, OTHER])"

section \<open>The spawn index\<close>

lemma foldl_spawn_step_Some:
  "foldl spawn_step m its k = Some g \<Longrightarrow>
   m k = Some g \<or> (\<exists>props. (g, props) \<in> set its \<and> props ''spawn'' = Some k)"
proof (induction its arbitrary: m)
  case Nil
  then show ?case by simp
next
  case (Cons it its)
  obtain g0 p0 where it: "it = (g0, p0)" by (cases it)
  from Cons.prems have "foldl spawn_step (spawn_step m it) its k = Some g" by simp
  from Cons.IH [OF this] show ?case
    by (auto simp: spawn_step_def it split: option.splits if_splits)
qed

lemma dom_foldl_spawn_step:
  "dom (foldl spawn_step m its) =
   dom m \<union> {k. \<exists>g props. (g, props) \<in> set its \<and> props ''spawn'' = Some k}"
proof (induction its arbitrary: m)
  case Nil
  then show ?case by simp
next
  case (Cons it its)
  obtain g0 p0 where it: "it = (g0, p0)" by (cases it)
  show ?case
    unfolding foldl_Cons Cons.IH
    by (auto simp: spawn_step_def it split: option.splits)
qed

lemma foldl_spawn_step_filter:
  "foldl spawn_step m (filter (\<lambda>item. snd item ''spawn'' \<noteq> None) its) = foldl spawn_step m its"
  by (induction its arbitrary: m) (auto simp: spawn_step_def split: option.splits prod.splits)

section \<open>Cells of a grid\<close>

lemma py_index_less: "py_index n i = Inr k \<Longrightarrow> k < n"
  by (auto simp: py_index_def split: if_splits)

lemma cell_pos_bounds:
  "cell_pos d y x = Inr (r, c) \<Longrightarrow> r < length d \<and> c < length (d ! r)"
  by (auto simp: cell_pos_def split: sum.splits dest: py_index_less)

lemma get_cell_iff:
  "get_cell d y x = Inr v \<longleftrightarrow> (\<exists>r c. cell_pos d y x = Inr (r, c) \<and> d ! r ! c = v)"
  by (auto simp: get_cell_def getitem_def cell_pos_def split: sum.splits)

lemma set_cell_eq:
  "cell_pos d y x = Inr (r, c) \<Longrightarrow> set_cell d y x v = Inr (put_cell d r c v)"
  by (auto simp: set_cell_def setitem_def cell_pos_def put_cell_def split: sum.splits)

lemma length_put_cell [simp]: "length (put_cell d r c v) = length d"
  by (simp add: put_cell_def)

lemma length_row_put_cell [simp]: "length (put_cell d r c v ! i) = length (d ! i)"
proof (cases "r < length d")
  case True
  then show ?thesis by (simp add: put_cell_def nth_list_update)
next
  case False
  then have "d[r := (d ! r)[c := v]] = d" by (simp add: list_update_beyond)
  then show ?thesis by (simp add: put_cell_def)
qed

lemma cell_pos_put_cell [simp]: "cell_pos (put_cell d r c v) y x = cell_pos d y x"
  by (auto simp: cell_pos_def split: sum.splits)

lemma nth_put_cell:
  "i < length d \<Longrightarrow> j < length (d ! i) \<Longrightarrow>
   put_cell d r c v ! i ! j = (if (i, j) = (r, c) then v else d ! i ! j)"
  by (cases "i = r") (auto simp: put_cell_def nth_list_update)

lemma getitem_row:
  "cell_pos d y x = Inr (r, c) \<Longrightarrow> getitem d y = Inr (d ! r)"
  by (auto simp: cell_pos_def getitem_def split: sum.splits)

lemma selection_items:
  "selection_item (Some [a, b, c]) 0 = Inr a"
  "selection_item (Some [a, b, c]) 1 = Inr b"
  "selection_item (Some [a, b, c]) 2 = Inr c"
  by (simp_all add: selection_item_def getitem_def py_index_def)

lemma move_selection_eq:
  assumes "selection s = Some [sx, sy, g]"
      and "cell_pos layer y x = Inr (r, c)"
      and "cell_pos layer sy sx = Inr (sr, sc)"
  shows "move_selection s layer x y =
         Inr ((store_sprite_layer s (put_cell (put_cell layer r c g) sr sc 0))\<lparr>selection := None\<rparr>)"
proof -
  have 1: "set_cell layer y x g = Inr (put_cell layer r c g)"
    using assms(2) by (rule set_cell_eq)
  have 2: "cell_pos (put_cell layer r c g) sy sx = Inr (sr, sc)"
    using assms(3) by simp
  have 3: "getitem (put_cell layer r c g) sy = Inr (put_cell layer r c g ! sr)"
    using 2 by (rule getitem_row)
  have 4: "set_cell (put_cell layer r c g) sy sx 0 = Inr (put_cell (put_cell layer r c g) sr sc 0)"
    using 2 by (rule set_cell_eq)
  show ?thesis
    by (simp add: move_selection_def assms(1) selection_items 1 3 4)
qed

lemma mouse_button_up_eq:
  assumes "layernames (tmx_data s) ''Sprite Layer'' = Some layer"
      and "terrain_at s x y = Inr t"
  shows "mouse_button_up s x y =
     (if truthy (selection s) then
        (case get_cell layer y x of
           Inl e \<Rightarrow> Inl e
         | Inr cell \<Rightarrow>
             if cell \<noteq> 0 then Inr (print_line s ''Something already here.'')
             else if t = ''water'' then Inr (print_line s ''oh no is water'')
             else if t = ''mountains'' then Inr (print_line s ''oh no is mountain'')
             else move_selection s layer x y)
      else
        (case get_cell layer y x of
           Inl e \<Rightarrow> Inl e
         | Inr cell \<Rightarrow>
             if cell \<noteq> 0 then Inr (s\<lparr>selection := Some [x, y, cell]\<rparr>)
             else Inr s))"
proof -
  from assms(2) obtain world tile props where
    "layernames (tmx_data s) ''World Layer'' = Some world"
    "get_cell world y x = Inr tile"
    "get_tile_properties_by_gid (tmx_data s) tile = Some props"
    "props ''terrain'' = Some t"
    by (auto simp: terrain_at_def get_layer_by_name_def split: sum.splits option.splits)
  with assms(1) show ?thesis
    by (simp add: mouse_button_up_def get_layer_by_name_def)
qed

lemma sprite_cell_layer:
  "sprite_cell s x y = Inr v \<Longrightarrow>
   \<exists>layer. layernames (tmx_data s) ''Sprite Layer'' = Some layer \<and> get_cell layer y x = Inr v"
  by (auto simp: sprite_cell_def get_layer_by_name_def split: option.splits)

section \<open>The click handler\<close>

lemma move_selection_fields:
  "move_selection s layer x y = Inr s' \<Longrightarrow>
   selection s' = None \<and> running s' = running s \<and> exit_status s' = exit_status s \<and>
   printed s' = printed s"
  by (auto simp: move_selection_def store_sprite_layer_def split: sum.splits)

lemma mouse_button_up_reads:
  assumes "mouse_button_up s x y = Inr s'"
  shows "\<exists>layer t. layernames (tmx_data s) ''Sprite Layer'' = Some layer \<and>
                   terrain_at s x y = Inr t"
proof -
  from assms obtain layer where 1: "layernames (tmx_data s) ''Sprite Layer'' = Some layer"
    by (cases "layernames (tmx_data s) ''Sprite Layer''")
       (simp_all add: mouse_button_up_def get_layer_by_name_def)
  from assms 1 obtain world where 2: "layernames (tmx_data s) ''World Layer'' = Some world"
    by (cases "layernames (tmx_data s) ''World Layer''")
       (simp_all add: mouse_button_up_def get_layer_by_name_def)
  from assms 1 2 obtain tile where 3: "get_cell world y x = Inr tile"
    by (cases "get_cell world y x")
       (simp_all add: mouse_button_up_def get_layer_by_name_def)
  from assms 1 2 3 obtain props where 4: "get_tile_properties_by_gid (tmx_data s) tile = Some props"
    by (cases "get_tile_properties_by_gid (tmx_data s) tile")
       (simp_all add: mouse_button_up_def get_layer_by_name_def)
  from assms 1 2 3 4 obtain t where 5: "props ''terrain'' = Some t"
    by (cases "props ''terrain''")
       (simp_all add: mouse_button_up_def get_layer_by_name_def)
  from 1 2 3 4 5 show ?thesis
    by (simp add: terrain_at_def get_layer_by_name_def)
qed

lemma mouse_button_up_cases:
  assumes "mouse_button_up s x y = Inr s'"
  shows "(truthy (selection s) \<and> (\<exists>line. s' = print_line s line))
       \<or> (truthy (selection s) \<and> sprite_cell s x y = Inr 0 \<and>
          (\<exists>layer. move_selection s layer x y = Inr s'))
       \<or> (\<not> truthy (selection s) \<and>
          (\<exists>cell. cell \<noteq> 0 \<and> sprite_cell s x y = Inr cell \<and>
                  s' = s\<lparr>selection := Some [x, y, cell]\<rparr>))
       \<or> s' = s"
proof -
  from mouse_button_up_reads [OF assms] obtain layer t where
    r: "layernames (tmx_data s) ''Sprite Layer'' = Some layer" "terrain_at s x y = Inr t"
    by blast
  have sc: "sprite_cell s x y = get_cell layer y x"
    using r(1) by (simp add: sprite_cell_def get_layer_by_name_def)
  from assms have
    "(if truthy (selection s) then
        (case get_cell layer y x of
           Inl e \<Rightarrow> Inl e
         | Inr cell \<Rightarrow>
             if cell \<noteq> 0 then Inr (print_line s ''Something already here.'')
             else if t = ''water'' then Inr (print_line s ''oh no is water'')
             else if t = ''mountains'' then Inr (print_line s ''oh no is mountain'')
             else move_selection s layer x y)
      else
        (case get_cell layer y x of
           Inl e \<Rightarrow> Inl e
         | Inr cell \<Rightarrow>
             if cell \<noteq> 0 then Inr (s\<lparr>selection := Some [x, y, cell]\<rparr>)
             else Inr s)) = Inr s'"
    by (simp only: mouse_button_up_eq [OF r])
  then show ?thesis
    unfolding sc
    by (cases "get_cell layer y x") (auto split: if_splits)
qed

lemma selection_inv_cong:
  "selection s' = selection s \<Longrightarrow> tmx_data s' = tmx_data s \<Longrightarrow>
   selection_inv s' = selection_inv s"
  by (simp add: selection_inv_def sprite_cell_def split: option.splits)

lemma selection_inv_mouse:
  assumes "mouse_button_up s x y = Inr s'" and "selection_inv s"
  shows "selection_inv s'"
  using mouse_button_up_cases [OF assms(1)]
proof (elim disjE conjE exE)
  fix line assume "s' = print_line s line"
  then have "selection_inv s' = selection_inv s"
    by (intro selection_inv_cong) (simp_all add: print_line_def)
  then show ?thesis using assms(2) by simp
next
  fix layer assume "move_selection s layer x y = Inr s'"
  then show ?thesis by (simp add: selection_inv_def move_selection_fields)
next
  fix cell assume "cell \<noteq> 0" "sprite_cell s x y = Inr cell" "s' = s\<lparr>selection := Some [x, y, cell]\<rparr>"
  then show ?thesis by (simp add: selection_inv_def sprite_cell_def)
next
  assume "s' = s"
  then show ?thesis using assms(2) by simp
qed

lemma selection_inv_event:
  "handle_event s e = Inr s' \<Longrightarrow> selection_inv s \<Longrightarrow> selection_inv s'"
proof (cases e)
  case (MOUSEBUTTONUP x y)
  assume "handle_event s e = Inr s'" "selection_inv s"
  then show ?thesis using MOUSEBUTTONUP by (simp add: selection_inv_mouse)
qed (auto simp: selection_inv_def sprite_cell_def split: if_splits option.splits)

lemma selection_inv_events:
  "process_events s es = Inr s' \<Longrightarrow> selection_inv s \<Longrightarrow> selection_inv s'"
  by (induction es arbitrary: s) (auto split: sum.splits dest: selection_inv_event)

lemma selection_inv_start: "selection_inv (run_begin (SimpleTest_init tm))"
  by (simp add: selection_inv_def run_begin_def SimpleTest_init_def)

lemma truthy_triple: "truthy (Some [a, b, c])"
  by (simp add: truthy_def)

lemma click_moves:
  assumes inv: "selection_inv s"
      and sel: "selection s = Some [sx, sy, gid]"
      and dst: "sprite_cell s x y = Inr 0"
      and ter: "terrain_at s x y = Inr t" "t \<noteq> ''water''" "t \<noteq> ''mountains''"
  obtains layer r c sr sc where
    "layernames (tmx_data s) ''Sprite Layer'' = Some layer"
    "cell_pos layer y x = Inr (r, c)" "cell_pos layer sy sx = Inr (sr, sc)"
    "layer ! r ! c = 0" "layer ! sr ! sc = gid" "gid \<noteq> 0" "(r, c) \<noteq> (sr, sc)"
    "handle_event s (MOUSEBUTTONUP x y) =
       Inr ((store_sprite_layer s (put_cell (put_cell layer r c gid) sr sc 0))\<lparr>selection := None\<rparr>)"
proof -
  from dst obtain layer where
    layer: "layernames (tmx_data s) ''Sprite Layer'' = Some layer"
    and cell: "get_cell layer y x = Inr 0"
    by (auto dest: sprite_cell_layer)
  from inv sel have nz: "gid \<noteq> 0" and "sprite_cell s sx sy = Inr gid"
    by (simp_all add: selection_inv_def)
  with layer have src: "get_cell layer sy sx = Inr gid"
    by (simp add: sprite_cell_def get_layer_by_name_def)
  from cell obtain r c where rc: "cell_pos layer y x = Inr (r, c)" "layer ! r ! c = 0"
    by (auto simp: get_cell_iff)
  from src obtain sr sc where src': "cell_pos layer sy sx = Inr (sr, sc)" "layer ! sr ! sc = gid"
    by (auto simp: get_cell_iff)
  from rc src' nz have ne: "(r, c) \<noteq> (sr, sc)" by auto
  have "handle_event s (MOUSEBUTTONUP x y) = move_selection s layer x y"
    by (simp add: mouse_button_up_eq [OF layer ter(1)] sel truthy_triple cell ter)
  also have "\<dots> = Inr ((store_sprite_layer s (put_cell (put_cell layer r c gid) sr sc 0))\<lparr>selection := None\<rparr>)"
    using sel rc(1) src'(1) by (rule move_selection_eq)
  finally have h: "handle_event s (MOUSEBUTTONUP x y) =
      Inr ((store_sprite_layer s (put_cell (put_cell layer r c gid) sr sc 0))\<lparr>selection := None\<rparr>)" .
  show ?thesis
    by (rule that [OF layer rc(1) src'(1) rc(2) src'(2) nz ne h])
qed

lemma sprite_cell_store:
  "sprite_cell ((store_sprite_layer s d)\<lparr>selection := sel\<rparr>) x y = get_cell d y x"
  by (simp add: sprite_cell_def store_sprite_layer_def get_layer_by_name_def)

lemma get_cell_put_cell:
  assumes "cell_pos d y x = Inr (r, c)"
  shows "get_cell (put_cell d r' c' v) y x = Inr (if (r, c) = (r', c') then v else d ! r ! c)"
proof -
  from assms have b: "r < length d" "c < length (d ! r)"
    by (auto dest: cell_pos_bounds)
  have "cell_pos (put_cell d r' c' v) y x = Inr (r, c)"
    using assms by simp
  moreover have "put_cell d r' c' v ! r ! c = (if (r, c) = (r', c') then v else d ! r ! c)"
    using b by (rule nth_put_cell)
  ultimately show ?thesis
    unfolding get_cell_iff by blast
qed

text \<open>Unfolding rules for evaluating the example states.\<close>

lemmas demo_eval =
  demo_map_def demo_start_def demo_selected_def run_begin_def SimpleTest_init_def
  mouse_button_up_def get_layer_by_name_def get_cell_def getitem_def py_index_def
  get_tile_properties_by_gid_def truthy_def sprite_cell_def terrain_at_def print_line_def

section \<open>Selections\<close>

lemma blocked_prints_line:
  assumes "selection s = Some [sx, sy, gid]"
      and "sprite_cell s x y = Inr cell" and "terrain_at s x y = Inr t"
      and "cell \<noteq> 0 \<or> t = ''water'' \<or> t = ''mountains''"
  shows "\<exists>line. handle_event s (MOUSEBUTTONUP x y) = Inr (print_line s line)"
proof -
  from assms(2) obtain layer where
    layer: "layernames (tmx_data s) ''Sprite Layer'' = Some layer"
    and cell: "get_cell layer y x = Inr cell"
    by (auto dest: sprite_cell_layer)
  show ?thesis
    using assms(4)
    by (auto simp: mouse_button_up_eq [OF layer assms(3)] assms(1) truthy_triple cell)
qed

lemma selection_ok_event:
  assumes "handle_event s e = Inr s'" and "selection_ok (selection s)"
  shows "selection_ok (selection s')"
proof (cases e)
  case (MOUSEBUTTONUP x y)
  with assms(1) have "mouse_button_up s x y = Inr s'" by simp
  from mouse_button_up_cases [OF this] assms(2) show ?thesis
    by (auto simp: print_line_def selection_ok_def dest: move_selection_fields)
qed (use assms in \<open>auto split: if_splits\<close>)

lemma selection_ok_events:
  "process_events s es = Inr s' \<Longrightarrow> selection_ok (selection s) \<Longrightarrow> selection_ok (selection s')"
  by (induction es arbitrary: s) (auto split: sum.splits dest: selection_ok_event)

lemma selection_ok_triple:
  "selection_ok sel \<longleftrightarrow> sel = None \<or> (\<exists>x y g. sel = Some [x, y, g])"
proof (cases sel)
  case None
  then show ?thesis by (simp add: selection_ok_def)
next
  case (Some t)
  have "length t = 3 \<longleftrightarrow> (\<exists>x y g. t = [x, y, g])"
    by (auto simp: length_Suc_conv numeral_3_eq_3)
  with Some show ?thesis by (simp add: selection_ok_def)
qed

lemma selection_nonzero_event:
  assumes "handle_event s e = Inr s'" and "selection_nonzero (selection s)"
  shows "selection_nonzero (selection s')"
proof (cases e)
  case (MOUSEBUTTONUP x y)
  with assms(1) have "mouse_button_up s x y = Inr s'" by simp
  from mouse_button_up_cases [OF this] assms(2) show ?thesis
    by (auto simp: print_line_def selection_nonzero_def getitem_def py_index_def
             dest: move_selection_fields)
qed (use assms in \<open>auto split: if_splits\<close>)

lemma selection_created:
  assumes "handle_event s e = Inr s'" and "selection s' \<noteq> selection s"
      and "selection s' = Some t"
  shows "\<exists>x y g. e = MOUSEBUTTONUP x y \<and> t = [x, y, g] \<and> g \<noteq> 0 \<and> sprite_cell s x y = Inr g"
proof (cases e)
  case (MOUSEBUTTONUP x y)
  with assms(1) have "mouse_button_up s x y = Inr s'" by simp
  from mouse_button_up_cases [OF this] assms(2,3) show ?thesis
    using MOUSEBUTTONUP
    by (auto simp: print_line_def dest: move_selection_fields)
qed (use assms in \<open>auto split: if_splits\<close>)

section \<open>The main loop\<close>

lemma process_events_append:
  "process_events s (es @ es') =
     (case process_events s es of Inl e \<Rightarrow> Inl e | Inr s' \<Rightarrow> process_events s' es')"
  by (induction es arbitrary: s) (auto split: sum.splits)

lemma flags_mouse:
  "mouse_button_up s x y = Inr s' \<Longrightarrow>
   running s' = running s \<and> exit_status s' = exit_status s"
  by (drule mouse_button_up_cases) (auto simp: print_line_def dest: move_selection_fields)

lemma running_event:
  "handle_event s e = Inr s' \<Longrightarrow> running s' \<Longrightarrow> running s"
  by (cases e) (auto split: if_splits dest: flags_mouse)

lemma running_events:
  "process_events s es = Inr s' \<Longrightarrow> running s' \<Longrightarrow> running s"
  by (induction es arbitrary: s) (auto split: sum.splits dest: running_event)

lemma stopped_event:
  "handle_event s e = Inr s' \<Longrightarrow> \<not> running s \<and> exit_status s = 0 \<Longrightarrow>
   \<not> running s' \<and> exit_status s' = 0"
  by (cases e) (auto split: if_splits dest: flags_mouse)

lemma stopped_events:
  "process_events s es = Inr s' \<Longrightarrow> \<not> running s \<and> exit_status s = 0 \<Longrightarrow>
   \<not> running s' \<and> exit_status s' = 0"
proof (induction es arbitrary: s)
  case Nil
  then show ?case by simp
next
  case (Cons e es)
  from Cons.prems(1) obtain s1 where
    1: "handle_event s e = Inr s1" and 2: "process_events s1 es = Inr s'"
    by (auto split: sum.splits)
  from stopped_event [OF 1 Cons.prems(2)] show ?case
    by (rule Cons.IH [OF 2])
qed

lemma quit_event:
  "is_quit e \<Longrightarrow> handle_event s e = Inr (s\<lparr>exit_status := 0, running := False\<rparr>)"
  by (auto simp: is_quit_def)

lemma batch_with_quit:
  "process_events s es = Inr s' \<Longrightarrow> e \<in> set es \<Longrightarrow> is_quit e \<Longrightarrow>
   \<not> running s' \<and> exit_status s' = 0"
proof (induction es arbitrary: s)
  case Nil
  then show ?case by simp
next
  case (Cons a es)
  from Cons.prems(1) obtain s1 where
    1: "handle_event s a = Inr s1" and 2: "process_events s1 es = Inr s'"
    by (auto split: sum.splits)
  show ?case
  proof (cases "a = e")
    case True
    with 1 Cons.prems(3) have "\<not> running s1 \<and> exit_status s1 = 0"
      by (auto simp: quit_event)
    with 2 show ?thesis by (rule stopped_events)
  next
    case False
    with Cons.prems(2) have "e \<in> set es" by simp
    with 2 show ?thesis using Cons.prems(3) by (rule Cons.IH)
  qed
qed

lemma main_loop_step:
  "running s \<Longrightarrow> process_events s (queue n) = Inr s' \<Longrightarrow>
   main_loop queue n s = main_loop queue (Suc n) s'"
  by (subst main_loop.simps) simp

lemma main_loop_stopped: "\<not> running s \<Longrightarrow> main_loop queue n s = Some (Inr s)"
  by (subst main_loop.simps) simp

lemma main_loop_prefix:
  "process_events s0 (concat (map queue [0..<n])) = Inr s \<Longrightarrow> running s \<Longrightarrow>
   main_loop queue 0 s0 = main_loop queue n s"
proof (induction n arbitrary: s)
  case 0
  then show ?case by simp
next
  case (Suc n)
  from Suc.prems(1) obtain sm where
    1: "process_events s0 (concat (map queue [0..<n])) = Inr sm"
    and 2: "process_events sm (queue n) = Inr s"
    by (auto simp: process_events_append split: sum.splits)
  from 2 Suc.prems(2) have r: "running sm" by (rule running_events)
  have "main_loop queue 0 s0 = main_loop queue n sm"
    using 1 r by (rule Suc.IH)
  also have "\<dots> = main_loop queue (Suc n) s"
    using r 2 by (rule main_loop_step)
  finally show ?case .
qed

section \<open>Claims about the index builders\<close>

text \<open>
  Claim C6, evaluated at a character with two modes. The claim says that the index
  maps team, character and mode of every qualifying gid to that gid, so that a
  character with several modes keeps an entry for each. For the two tiles of
  \<open>modes_map\<close> (red, dude, idle with gid 1 and red, dude, walk with gid 2) the
  source's test \<open>team not in characters[team]\<close> replaces the character's
  dictionary at the second tile: the index has no entry for idle, or none for
  walk when the items come in the other order.
\<close>

theorem build_character_index_loses_mode:
  "(\<exists>characters. build_character_index modes_map = Inr characters \<and>
      lookup3 characters ''red'' ''dude'' ''idle'' = None \<and>
      lookup3 characters ''red'' ''dude'' ''walk'' = Some 2) \<and>
   (\<exists>characters.
      build_character_index (modes_map\<lparr>tile_properties := rev (tile_properties modes_map)\<rparr>) =
        Inr characters \<and>
      lookup3 characters ''red'' ''dude'' ''idle'' = Some 1 \<and>
      lookup3 characters ''red'' ''dude'' ''walk'' = None)"
  by (simp add: build_character_index_def modes_map_def character_step_def lookup3_def)

text \<open>
  Claim C7: the entries of the spawn index come exactly from the tiles whose
  properties have the key \<open>spawn\<close>. An entry \<open>colour \<mapsto> gid\<close> of the result is
  the spawn value and the gid of one such tile; the keys of the result are exactly
  the spawn values that occur; and the tiles without a \<open>spawn\<close> property can be
  removed from the input without changing the result.
\<close>

theorem build_spawn_index_entries:
  "(build_spawn_index tm colour = Some gid \<longrightarrow>
      (\<exists>props. (gid, props) \<in> set (tile_properties tm) \<and> props ''spawn'' = Some colour)) \<and>
   dom (build_spawn_index tm) =
     {colour. \<exists>gid props. (gid, props) \<in> set (tile_properties tm) \<and> props ''spawn'' = Some colour} \<and>
   build_spawn_index (tm\<lparr>tile_properties :=
       filter (\<lambda>item. snd item ''spawn'' \<noteq> None) (tile_properties tm)\<rparr>) = build_spawn_index tm"
proof (intro conjI impI)
  assume "build_spawn_index tm colour = Some gid"
  then show "\<exists>props. (gid, props) \<in> set (tile_properties tm) \<and> props ''spawn'' = Some colour"
    using foldl_spawn_step_Some [of Map.empty "tile_properties tm" colour gid]
    by (simp add: build_spawn_index_def)
next
  show "dom (build_spawn_index tm) =
     {colour. \<exists>gid props. (gid, props) \<in> set (tile_properties tm) \<and> props ''spawn'' = Some colour}"
    by (simp add: build_spawn_index_def dom_foldl_spawn_step)
next
  show "build_spawn_index (tm\<lparr>tile_properties :=
       filter (\<lambda>item. snd item ''spawn'' \<noteq> None) (tile_properties tm)\<rparr>) = build_spawn_index tm"
    using foldl_spawn_step_filter [of Map.empty "tile_properties tm"]
    by (simp add: build_spawn_index_def)
qed

theorem build_spawn_index_entries_witness:
  "build_spawn_index spawn_map ''red'' = Some 3 \<and>
   (\<exists>props. (3, props) \<in> set (tile_properties spawn_map) \<and> props ''spawn'' = Some ''red'') \<and>
   build_spawn_index spawn_map ''grass'' = None \<and>
   build_spawn_index (spawn_map\<lparr>tile_properties :=
       filter (\<lambda>item. snd item ''spawn'' \<noteq> None) (tile_properties spawn_map)\<rparr>) =
     build_spawn_index spawn_map"
proof -
  have 1: "build_spawn_index spawn_map ''red'' = Some 3"
    by (simp add: build_spawn_index_def spawn_map_def spawn_step_def)
  have 2: "build_spawn_index spawn_map ''grass'' = None"
    by (simp add: build_spawn_index_def spawn_map_def spawn_step_def)
  show ?thesis
    using build_spawn_index_entries [of spawn_map "''red''" 3] 1 2 by simp
qed

section \<open>Claims about mouse clicks\<close>

text \<open>
  Claim C1: in a state \<open>s\<close> of a run (reached from the state at the start of
  \<open>run\<close> by processing events) with the tile \<open>(sx, sy, gid)\<close> selected, a click
  at tile \<open>(x, y)\<close> whose Sprite Layer cell is 0 and whose terrain is neither water
  nor mountains is handled without an exception; afterwards the Sprite Layer cell
  at \<open>(y, x)\<close> is \<open>gid\<close>, the cell at \<open>(sy, sx)\<close> is 0, and the selection is
  empty.
\<close>

theorem click_empty_tile_moves_selection:
  assumes "process_events (run_begin (SimpleTest_init tm)) es = Inr s"
      and "selection s = Some [sx, sy, gid]"
      and "sprite_cell s x y = Inr 0"
      and "terrain_at s x y = Inr t" and "t \<noteq> ''water''" and "t \<noteq> ''mountains''"
  shows "\<exists>s'. handle_event s (MOUSEBUTTONUP x y) = Inr s' \<and>
              sprite_cell s' x y = Inr gid \<and> sprite_cell s' sx sy = Inr 0 \<and>
              selection s' = None"
proof -
  have inv: "selection_inv s"
    using assms(1) selection_inv_start by (rule selection_inv_events)
  show ?thesis
  proof (rule click_moves [OF inv assms(2-6)])
    fix layer r c sr sc
    assume dst: "cell_pos layer y x = Inr (r, c)"
       and src: "cell_pos layer sy sx = Inr (sr, sc)"
       and ne: "(r, c) \<noteq> (sr, sc)"
       and h: "handle_event s (MOUSEBUTTONUP x y) =
          Inr ((store_sprite_layer s (put_cell (put_cell layer r c gid) sr sc 0))\<lparr>selection := None\<rparr>)"
    let ?d1 = "put_cell layer r c gid"
    have dst1: "cell_pos ?d1 y x = Inr (r, c)" and src1: "cell_pos ?d1 sy sx = Inr (sr, sc)"
      using dst src by simp_all
    have "get_cell ?d1 y x = Inr gid"
      using get_cell_put_cell [OF dst, of r c gid] by simp
    then have "?d1 ! r ! c = gid"
      using dst1 by (simp add: get_cell_iff)
    then have 1: "get_cell (put_cell ?d1 sr sc 0) y x = Inr gid"
      using get_cell_put_cell [OF dst1, of sr sc 0] ne by auto
    have 2: "get_cell (put_cell ?d1 sr sc 0) sy sx = Inr 0"
      using get_cell_put_cell [OF src1, of sr sc 0] by simp
    show ?thesis
      using h 1 2 by (simp add: sprite_cell_store)
  qed
qed

theorem click_empty_tile_moves_selection_witness:
  "process_events (run_begin (SimpleTest_init demo_map)) [MOUSEBUTTONUP 0 0] = Inr demo_selected \<and>
   selection demo_selected = Some [0, 0, 5] \<and>
   sprite_cell demo_selected 1 0 = Inr 0 \<and>
   terrain_at demo_selected 1 0 = Inr ''grass'' \<and>
   (\<exists>s'. handle_event demo_selected (MOUSEBUTTONUP 1 0) = Inr s' \<and>
         sprite_cell s' 1 0 = Inr 5 \<and> sprite_cell s' 0 0 = Inr 0 \<and> selection s' = None)"
proof -
  have 1: "process_events (run_begin (SimpleTest_init demo_map)) [MOUSEBUTTONUP 0 0] = Inr demo_selected"
    by (simp add: demo_eval)
  have 2: "selection demo_selected = Some [0, 0, 5]"
    by (simp add: demo_eval)
  have 3: "sprite_cell demo_selected 1 0 = Inr 0"
    by (simp add: demo_eval)
  have 4: "terrain_at demo_selected 1 0 = Inr ''grass''"
    by (simp add: demo_eval)
  show ?thesis
    using click_empty_tile_moves_selection [OF 1 2 3 4] 1 2 3 4 by simp
qed

text \<open>
  Claim C2: with a tile selected, a click whose move is blocked (the destination
  Sprite Layer cell is not 0, or the destination terrain is water or mountains) is
  handled without an exception and leaves the map, hence the data of every layer,
  and the selection as they were. The only effect is the printed line.
\<close>

theorem blocked_click_changes_nothing:
  assumes "selection s = Some [sx, sy, gid]"
      and "sprite_cell s x y = Inr cell" and "terrain_at s x y = Inr t"
      and "cell \<noteq> 0 \<or> t = ''water'' \<or> t = ''mountains''"
  shows "\<exists>s'. handle_event s (MOUSEBUTTONUP x y) = Inr s' \<and>
              tmx_data s' = tmx_data s \<and> selection s' = selection s"
  using blocked_prints_line [OF assms] by (auto simp: print_line_def)

theorem blocked_click_changes_nothing_witness:
  "(\<exists>s'. handle_event demo_selected (MOUSEBUTTONUP 2 0) = Inr s' \<and>
         tmx_data s' = tmx_data demo_selected \<and> selection s' = Some [0, 0, 5]) \<and>
   (\<exists>s'. handle_event demo_selected (MOUSEBUTTONUP 1 1) = Inr s' \<and>
         tmx_data s' = tmx_data demo_selected \<and> selection s' = Some [0, 0, 5]) \<and>
   (\<exists>s'. handle_event demo_selected (MOUSEBUTTONUP 0 1) = Inr s' \<and>
         tmx_data s' = tmx_data demo_selected \<and> selection s' = Some [0, 0, 5])"
proof -
  have sel: "selection demo_selected = Some [0, 0, 5]"
    by (simp add: demo_eval)
  have occupied: "sprite_cell demo_selected 2 0 = Inr 7" "terrain_at demo_selected 2 0 = Inr ''grass''"
    by (simp_all add: demo_eval)
  have water: "sprite_cell demo_selected 1 1 = Inr 0" "terrain_at demo_selected 1 1 = Inr ''water''"
    by (simp_all add: demo_eval)
  have mountains: "sprite_cell demo_selected 0 1 = Inr 0" "terrain_at demo_selected 0 1 = Inr ''mountains''"
    by (simp_all add: demo_eval)
  show ?thesis
    using blocked_click_changes_nothing [OF sel occupied]
          blocked_click_changes_nothing [OF sel water]
          blocked_click_changes_nothing [OF sel mountains] sel
    by simp
qed

text \<open>
  Claim C3 says that a click on a tile whose Sprite Layer cell is not 0 makes that
  tile the selection whether or not a selection exists. In the run that selects the
  sprite 5 at (0, 0) and then clicks the sprite 7 at (2, 0), the second click prints
  the line of the occupied branch and the selection stays \<open>(0, 0, 5)\<close>.
\<close>

theorem click_occupied_tile_counterexample:
  "process_events demo_start [MOUSEBUTTONUP 0 0] = Inr demo_selected \<and>
   selection demo_selected = Some [0, 0, 5] \<and>
   sprite_cell demo_selected 2 0 = Inr 7 \<and>
   handle_event demo_selected (MOUSEBUTTONUP 2 0) =
     Inr (print_line demo_selected ''Something already here.'') \<and>
   selection (print_line demo_selected ''Something already here.'') \<noteq> Some [2, 0, 7]"
  by (simp add: demo_eval)

text \<open>
  Claim C3 as amended: a click on a tile whose Sprite Layer cell \<open>g\<close> is not 0,
  and whose World Layer tile has a terrain, is handled without an exception. When
  no selection exists the selection becomes \<open>(x, y, g)\<close> and nothing is printed;
  when one exists the selection is left as it is and the one line
  \<open>Something already here.\<close> is printed. The map is the same in both cases.
\<close>

theorem click_occupied_tile_selects:
  assumes "sprite_cell s x y = Inr g" and "g \<noteq> 0" and "terrain_at s x y = Inr t"
  shows "\<exists>s'. handle_event s (MOUSEBUTTONUP x y) = Inr s' \<and>
              selection s' = (if truthy (selection s) then selection s else Some [x, y, g]) \<and>
              printed s' =
                (if truthy (selection s) then printed s @ [''Something already here.'']
                 else printed s) \<and>
              tmx_data s' = tmx_data s"
proof -
  from assms(1) obtain layer where
    layer: "layernames (tmx_data s) ''Sprite Layer'' = Some layer"
    and cell: "get_cell layer y x = Inr g"
    by (auto dest: sprite_cell_layer)
  show ?thesis
    using assms(2)
    by (simp add: mouse_button_up_eq [OF layer assms(3)] cell print_line_def)
qed

theorem click_occupied_tile_selects_witness:
  "(\<exists>s'. handle_event demo_start (MOUSEBUTTONUP 2 0) = Inr s' \<and>
         selection s' = Some [2, 0, 7] \<and> printed s' = []) \<and>
   (\<exists>s'. handle_event demo_selected (MOUSEBUTTONUP 2 0) = Inr s' \<and>
         selection s' = Some [0, 0, 5] \<and> printed s' = [''Something already here.''])"
proof -
  have 1: "sprite_cell demo_start 2 0 = Inr 7" "(7::int) \<noteq> 0" "terrain_at demo_start 2 0 = Inr ''grass''"
    by (simp_all add: demo_eval)
  have 2: "sprite_cell demo_selected 2 0 = Inr 7" "(7::int) \<noteq> 0" "terrain_at demo_selected 2 0 = Inr ''grass''"
    by (simp_all add: demo_eval)
  have 3: "\<not> truthy (selection demo_start)" "truthy (selection demo_selected)"
    "selection demo_selected = Some [0, 0, 5]"
    "printed demo_start = []" "printed demo_selected = []"
    by (simp_all add: demo_eval)
  show ?thesis
    using click_occupied_tile_selects [OF 1] click_occupied_tile_selects [OF 2] 3
    by auto
qed

text \<open>
  Claim C9: the handler reads the \<open>terrain\<close> property of the clicked World Layer
  tile before it branches on the selection. When both layers exist and the clicked
  tile is in range, a tile without properties makes the handler raise TypeError and
  properties without \<open>terrain\<close> make it raise KeyError, whatever the selection and
  the Sprite Layer cell are (so also for a click that would only select); and a
  handler that returns has found the terrain.
\<close>

theorem click_without_terrain_raises:
  assumes "get_layer_by_name (tmx_data s) ''Sprite Layer'' = Inr layer"
      and "get_layer_by_name (tmx_data s) ''World Layer'' = Inr world"
      and "get_cell world y x = Inr tile"
  shows "(get_tile_properties_by_gid (tmx_data s) tile = None \<longrightarrow>
            handle_event s (MOUSEBUTTONUP x y) = Inl TypeError) \<and>
         (get_tile_properties_by_gid (tmx_data s) tile = Some props \<and> props ''terrain'' = None \<longrightarrow>
            handle_event s (MOUSEBUTTONUP x y) = Inl KeyError) \<and>
         (handle_event s (MOUSEBUTTONUP x y) = Inr s' \<longrightarrow>
            (\<exists>props terrain. get_tile_properties_by_gid (tmx_data s) tile = Some props \<and>
                             props ''terrain'' = Some terrain))"
  using assms
  by (auto simp: mouse_button_up_def split: option.splits)

theorem click_without_terrain_raises_witness:
  "selection demo_start = None \<and> sprite_cell demo_start 3 0 = Inr 9 \<and>
   handle_event demo_start (MOUSEBUTTONUP 3 0) = Inl TypeError \<and>
   handle_event demo_start (MOUSEBUTTONUP 2 1) = Inl KeyError \<and>
   (\<exists>props terrain. get_tile_properties_by_gid (tmx_data demo_start) 1 = Some props \<and>
                    props ''terrain'' = Some terrain)"
proof -
  have l: "get_layer_by_name (tmx_data demo_start) ''Sprite Layer'' = Inr [[5, 0, 7, 9], [0, 0, 0, 0]]"
          "get_layer_by_name (tmx_data demo_start) ''World Layer'' = Inr [[1, 1, 1, 4], [3, 2, 6, 1]]"
    by (simp_all add: demo_eval)
  have 1: "get_cell [[1, 1, 1, 4], [3, 2, 6, 1]] 0 3 = Inr 4"
          "get_tile_properties_by_gid (tmx_data demo_start) 4 = None"
    by (simp_all add: demo_eval)
  have 2: "get_cell [[1, 1, 1, 4], [3, 2, 6, 1]] 1 2 = Inr 6"
          "get_tile_properties_by_gid (tmx_data demo_start) 6 = Some [''spawn'' \<mapsto> ''red'']"
          "[''spawn'' \<mapsto> ''red''] ''terrain'' = None"
    by (simp_all add: demo_eval)
  have 3: "get_cell [[1, 1, 1, 4], [3, 2, 6, 1]] 0 2 = Inr 1"
          "handle_event demo_start (MOUSEBUTTONUP 2 0) = Inr (demo_start\<lparr>selection := Some [2, 0, 7]\<rparr>)"
    by (simp_all add: demo_eval)
  have 4: "selection demo_start = None" "sprite_cell demo_start 3 0 = Inr 9"
    by (simp_all add: demo_eval)
  show ?thesis
    using click_without_terrain_raises [OF l 1(1), of Map.empty]
          click_without_terrain_raises [OF l 2(1), of "[''spawn'' \<mapsto> ''red'']"]
          click_without_terrain_raises [OF l 3(1), of Map.empty "demo_start\<lparr>selection := Some [2, 0, 7]\<rparr>"]
          1 2 3 4
    by simp
qed

text \<open>
  Claim C10: a successful move changes exactly two cells of the Sprite Layer. The
  destination cell and the source cell are different cells; the destination goes
  from 0 to the moved tile id and the source from that id, which is not 0, to 0.
  The layer keeps its shape, every other cell of it keeps its value, every other
  layer is the same, and so are the tile properties.
\<close>

theorem move_changes_two_cells:
  assumes "process_events (run_begin (SimpleTest_init tm)) es = Inr s"
      and "selection s = Some [sx, sy, gid]"
      and "sprite_cell s x y = Inr 0"
      and "terrain_at s x y = Inr t" and "t \<noteq> ''water''" and "t \<noteq> ''mountains''"
  shows "\<exists>s' layer layer' r c sr sc.
           handle_event s (MOUSEBUTTONUP x y) = Inr s' \<and>
           layernames (tmx_data s) ''Sprite Layer'' = Some layer \<and>
           layernames (tmx_data s') ''Sprite Layer'' = Some layer' \<and>
           cell_pos layer y x = Inr (r, c) \<and> cell_pos layer sy sx = Inr (sr, sc) \<and>
           (r, c) \<noteq> (sr, sc) \<and> layer ! r ! c = 0 \<and> layer ! sr ! sc = gid \<and> gid \<noteq> 0 \<and>
           length layer' = length layer \<and>
           (\<forall>i < length layer. length (layer' ! i) = length (layer ! i) \<and>
              (\<forall>j < length (layer ! i).
                 layer' ! i ! j =
                   (if (i, j) = (r, c) then gid else if (i, j) = (sr, sc) then 0
                    else layer ! i ! j))) \<and>
           (\<forall>name. name \<noteq> ''Sprite Layer'' \<longrightarrow>
              layernames (tmx_data s') name = layernames (tmx_data s) name) \<and>
           tile_properties (tmx_data s') = tile_properties (tmx_data s)"
proof -
  have inv: "selection_inv s"
    using assms(1) selection_inv_start by (rule selection_inv_events)
  show ?thesis
  proof (rule click_moves [OF inv assms(2-6)])
    fix layer r c sr sc
    assume layer: "layernames (tmx_data s) ''Sprite Layer'' = Some layer"
       and dst: "cell_pos layer y x = Inr (r, c)"
       and src: "cell_pos layer sy sx = Inr (sr, sc)"
       and vals: "layer ! r ! c = 0" "layer ! sr ! sc = gid" "gid \<noteq> 0"
       and ne: "(r, c) \<noteq> (sr, sc)"
       and h: "handle_event s (MOUSEBUTTONUP x y) =
          Inr ((store_sprite_layer s (put_cell (put_cell layer r c gid) sr sc 0))\<lparr>selection := None\<rparr>)"
    let ?d = "put_cell (put_cell layer r c gid) sr sc 0"
    let ?s' = "(store_sprite_layer s ?d)\<lparr>selection := None\<rparr>"
    have cells: "\<forall>i < length layer. length (?d ! i) = length (layer ! i) \<and>
              (\<forall>j < length (layer ! i).
                 ?d ! i ! j =
                   (if (i, j) = (r, c) then gid else if (i, j) = (sr, sc) then 0
                    else layer ! i ! j))"
      using ne by (auto simp: nth_put_cell)
    have new: "layernames (tmx_data ?s') ''Sprite Layer'' = Some ?d"
      by (simp add: store_sprite_layer_def)
    have others: "\<forall>name. name \<noteq> ''Sprite Layer'' \<longrightarrow>
              layernames (tmx_data ?s') name = layernames (tmx_data s) name"
      by (simp add: store_sprite_layer_def)
    have props: "tile_properties (tmx_data ?s') = tile_properties (tmx_data s)"
      by (simp add: store_sprite_layer_def)
    have len: "length ?d = length layer" by simp
    show ?thesis
      using h layer new dst src ne vals len cells others props by blast
  qed
qed

theorem move_changes_two_cells_witness:
  "\<exists>s'. handle_event demo_selected (MOUSEBUTTONUP 1 0) = Inr s' \<and>
        layernames (tmx_data s') ''Sprite Layer'' = Some [[0, 5, 7, 9], [0, 0, 0, 0]] \<and>
        layernames (tmx_data s') ''World Layer'' = layernames (tmx_data demo_selected) ''World Layer''"
proof -
  have 1: "process_events (run_begin (SimpleTest_init demo_map)) [MOUSEBUTTONUP 0 0] = Inr demo_selected"
    by (simp add: demo_eval)
  have 2: "selection demo_selected = Some [0, 0, 5]"
    by (simp add: demo_eval)
  have 3: "sprite_cell demo_selected 1 0 = Inr 0"
    by (simp add: demo_eval)
  have 4: "terrain_at demo_selected 1 0 = Inr ''grass''"
    by (simp add: demo_eval)
  have 5: "handle_event demo_selected (MOUSEBUTTONUP 1 0) =
       Inr ((store_sprite_layer demo_selected [[0, 5, 7, 9], [0, 0, 0, 0]])\<lparr>selection := None\<rparr>)"
    by (simp add: demo_eval move_selection_def selection_item_def set_cell_def setitem_def)
  from move_changes_two_cells [OF 1 2 3 4]
  obtain s' where "handle_event demo_selected (MOUSEBUTTONUP 1 0) = Inr s'"
    "\<forall>name. name \<noteq> ''Sprite Layer'' \<longrightarrow>
        layernames (tmx_data s') name = layernames (tmx_data demo_selected) name"
    by auto
  with 5 show ?thesis
    by (auto simp: store_sprite_layer_def)
qed

section \<open>Claims about the selection\<close>

text \<open>
  Claim C4: the selection is always None or a triple. It is None after
  \<open>__init__\<close>; every event that is handled keeps \<open>selection_ok\<close>; and in every
  state of a run the selection is None or \<open>(x, y, g)\<close> for some \<open>x\<close>, \<open>y\<close>,
  \<open>g\<close>.
\<close>

theorem selection_none_or_triple:
  "selection_ok (selection (SimpleTest_init tm)) \<and>
   (selection_ok (selection s) \<and> handle_event s e = Inr s' \<longrightarrow> selection_ok (selection s')) \<and>
   (process_events (run_begin (SimpleTest_init tm)) es = Inr s'' \<longrightarrow>
      selection s'' = None \<or> (\<exists>x y g. selection s'' = Some [x, y, g]))"
proof (intro conjI impI)
  show "selection_ok (selection (SimpleTest_init tm))"
    by (simp add: selection_ok_def SimpleTest_init_def)
next
  assume "selection_ok (selection s) \<and> handle_event s e = Inr s'"
  then show "selection_ok (selection s')"
    by (blast intro: selection_ok_event)
next
  assume "process_events (run_begin (SimpleTest_init tm)) es = Inr s''"
  moreover have "selection_ok (selection (run_begin (SimpleTest_init tm)))"
    by (simp add: selection_ok_def SimpleTest_init_def run_begin_def)
  ultimately have "selection_ok (selection s'')"
    by (rule selection_ok_events)
  then show "selection s'' = None \<or> (\<exists>x y g. selection s'' = Some [x, y, g])"
    by (simp add: selection_ok_triple)
qed

theorem selection_none_or_triple_witness:
  "selection_ok (selection demo_start) \<and>
   handle_event demo_start (MOUSEBUTTONUP 0 0) = Inr demo_selected \<and>
   selection_ok (selection demo_selected) \<and>
   process_events (run_begin (SimpleTest_init demo_map)) [MOUSEBUTTONUP 0 0, OTHER] = Inr demo_selected \<and>
   (\<exists>x y g. selection demo_selected = Some [x, y, g])"
proof -
  have 1: "selection_ok (selection demo_start)"
    by (simp add: demo_eval selection_ok_def)
  have 2: "handle_event demo_start (MOUSEBUTTONUP 0 0) = Inr demo_selected"
    by (simp add: demo_eval)
  have 3: "process_events (run_begin (SimpleTest_init demo_map)) [MOUSEBUTTONUP 0 0, OTHER] = Inr demo_selected"
    by (simp add: demo_eval)
  have 4: "selection demo_selected \<noteq> None"
    by (simp add: demo_eval)
  show ?thesis
    using selection_none_or_triple
            [of demo_map demo_start "MOUSEBUTTONUP 0 0" demo_selected "[MOUSEBUTTONUP 0 0, OTHER]" demo_selected]
          1 2 3 4
    by simp
qed

text \<open>
  Claim C8: a selection's tile id is never 0. An event that changes the selection
  to a tuple is a click at some \<open>(x, y)\<close> whose Sprite Layer cell \<open>g\<close> is not 0,
  and the tuple is \<open>(x, y, g)\<close>; every event that is handled keeps
  \<open>selection_nonzero\<close>; and in every state of a run a selection \<open>(sx, sy, gid)\<close>
  has \<open>gid \<noteq> 0\<close>.
\<close>

theorem selection_gid_nonzero:
  "(handle_event s e = Inr s' \<and> selection s' \<noteq> selection s \<and> selection s' = Some t \<longrightarrow>
      (\<exists>x y g. e = MOUSEBUTTONUP x y \<and> t = [x, y, g] \<and> g \<noteq> 0 \<and> sprite_cell s x y = Inr g)) \<and>
   (selection_nonzero (selection s) \<and> handle_event s e = Inr s' \<longrightarrow>
      selection_nonzero (selection s')) \<and>
   (process_events (run_begin (SimpleTest_init tm)) es = Inr s'' \<and>
    selection s'' = Some [sx, sy, gid] \<longrightarrow> gid \<noteq> 0)"
proof (intro conjI impI)
  assume "handle_event s e = Inr s' \<and> selection s' \<noteq> selection s \<and> selection s' = Some t"
  then show "\<exists>x y g. e = MOUSEBUTTONUP x y \<and> t = [x, y, g] \<and> g \<noteq> 0 \<and> sprite_cell s x y = Inr g"
    by (blast dest: selection_created)
next
  assume "selection_nonzero (selection s) \<and> handle_event s e = Inr s'"
  then show "selection_nonzero (selection s')"
    by (blast intro: selection_nonzero_event)
next
  assume a: "process_events (run_begin (SimpleTest_init tm)) es = Inr s'' \<and>
    selection s'' = Some [sx, sy, gid]"
  then have "selection_inv s''"
    using selection_inv_start by (blast intro: selection_inv_events)
  with a show "gid \<noteq> 0"
    by (simp add: selection_inv_def)
qed

theorem selection_gid_nonzero_witness:
  "handle_event demo_start (MOUSEBUTTONUP 0 0) = Inr demo_selected \<and>
   selection demo_selected = Some [0, 0, 5] \<and>
   sprite_cell demo_start 0 0 = Inr 5 \<and>
   selection_nonzero (selection demo_start) \<and>
   selection_nonzero (selection demo_selected) \<and>
   process_events (run_begin (SimpleTest_init demo_map)) [MOUSEBUTTONUP 0 0] = Inr demo_selected"
proof -
  have 1: "handle_event demo_start (MOUSEBUTTONUP 0 0) = Inr demo_selected"
    by (simp add: demo_eval)
  have 2: "selection demo_selected = Some [0, 0, 5]" "selection demo_selected \<noteq> selection demo_start"
    by (simp_all add: demo_eval)
  have 3: "selection_nonzero (selection demo_start)"
    by (simp add: demo_eval selection_nonzero_def)
  have 4: "process_events (run_begin (SimpleTest_init demo_map)) [MOUSEBUTTONUP 0 0] = Inr demo_selected"
    by (simp add: demo_eval)
  show ?thesis
    using selection_gid_nonzero
            [of demo_start "MOUSEBUTTONUP 0 0" demo_selected "[0, 0, 5]" demo_map
                "[MOUSEBUTTONUP 0 0]" demo_selected 0 0 5]
          1 2 3 4
    by simp
qed

section \<open>Claims about leaving the loop\<close>

text \<open>
  Claim C5 says that processing a window close or an ESC key press makes \<open>run\<close>
  return 0. The \<open>for\<close> loop goes on to the events that follow in the same batch:
  when a click outside the map follows the window close, \<open>run\<close> ends with
  IndexError and returns nothing.
\<close>

theorem quit_then_failing_click_counterexample:
  "is_quit QUIT \<and> QUIT \<in> set (quit_then_click 0) \<and>
   run quit_then_click (SimpleTest_init demo_map) = Some (Inl IndexError)"
  by (simp add: run_def main_loop.simps quit_then_click_def is_quit_def demo_eval)

text \<open>
  Claim C5 as amended: when the loop is still running as it fetches batch \<open>n\<close>,
  that batch holds a window close or an ESC key press, and no event of the batch
  raises, the loop stops after the batch (\<open>running\<close> is False) and \<open>run\<close> returns
  exit status 0.
\<close>

theorem quit_event_ends_run:
  assumes "process_events (run_begin s0) (concat (map queue [0..<n])) = Inr s"
      and "running s"
      and "e \<in> set (queue n)" and "is_quit e"
      and "process_events s (queue n) = Inr s'"
  shows "main_loop queue 0 (run_begin s0) = Some (Inr s') \<and> \<not> running s' \<and>
         run queue s0 = Some (Inr 0)"
proof -
  from assms(5,3,4) have stop: "\<not> running s' \<and> exit_status s' = 0"
    by (rule batch_with_quit)
  have "main_loop queue 0 (run_begin s0) = main_loop queue n s"
    using assms(1,2) by (rule main_loop_prefix)
  also have "\<dots> = main_loop queue (Suc n) s'"
    using assms(2,5) by (rule main_loop_step)
  also have "\<dots> = Some (Inr s')"
    using stop by (simp add: main_loop_stopped)
  finally show ?thesis
    using stop by (simp add: run_def)
qed

theorem quit_event_ends_run_witness:
  "process_events (run_begin (SimpleTest_init demo_map))
     (concat (map select_then_escape [0..<Suc 0])) = Inr demo_selected \<and>
   running demo_selected \<and>
   KEYDOWN K_ESCAPE \<in> set (select_then_escape (Suc 0)) \<and> is_quit (KEYDOWN K_ESCAPE) \<and>
   process_events demo_selected (select_then_escape (Suc 0)) =
     Inr (demo_selected\<lparr>exit_status := 0, running := False\<rparr>) \<and>
   run select_then_escape (SimpleTest_init demo_map) = Some (Inr 0)"
proof -
  have 1: "process_events (run_begin (SimpleTest_init demo_map))
     (concat (map select_then_escape [0..<Suc 0])) = Inr demo_selected"
    by (simp add: select_then_escape_def demo_eval)
  have 2: "running demo_selected"
    by (simp add: demo_eval)
  have 3: "KEYDOWN K_ESCAPE \<in> set (select_then_escape (Suc 0))" "is_quit (KEYDOWN K_ESCAPE)"
    by (simp_all add: select_then_escape_def is_quit_def)
  have 4: "process_events demo_selected (select_then_escape (Suc 0)) =
     Inr (demo_selected\<lparr>exit_status := 0, running := False\<rparr>)"
    by (simp add: select_then_escape_def)
  show ?thesis
    using quit_event_ends_run [OF 1 2 3 4] 1 2 3 4 by simp
qed

end
